theory Spec2Isabelle
  imports Main
begin

chapter \<open>MyDojo: a shallow embedding of the scripts, templates and build configuration\<close>

section \<open>The client-side module \<open>mydojo-main.js\<close>\<close>

subsection \<open>Values and ordinary objects\<close>

text \<open>
  JavaScript values. A native function or native object of the host is named by
  \<open>Builtin\<close>; an object allocated by the program is a reference into the store.
\<close>

datatype js_value =
    Undefined
  | Null
  | Boolean bool
  | Number int
  | String string
  | Builtin string
  | Object nat

text \<open>An abrupt completion: a \<open>TypeError\<close> of the language, or any value thrown by a
  getter or setter.\<close>

datatype js_error = TypeError | Thrown js_value














subsection \<open>\<open>_build_param_builder\<close>\<close>






subsection \<open>\<open>get_csag\<close>\<close>




section \<open>The WSGI entry point \<open>bin/mydojo.wsgi\<close>\<close>

text \<open>
  The module calls \<open>mydojo.create_app_full\<close> with keyword arguments only. The factory
  is not part of the script and is a parameter; the keyword arguments are the
  association list the call site writes, in its order.
\<close>

definition application_kwargs :: "(string \<times> string) list" where
  "application_kwargs =
     [(''config_object'', ''mydojo.config.ProductionConfig''),
      (''config_file'', ''/etc/mydojo/mydojo.conf''),
      (''config_env'', ''FLASK_CONFIG_FILE'')]"

definition application :: "((string \<times> string) list \<Rightarrow> 'app) \<Rightarrow> 'app" where
  "application create_app_full = create_app_full application_kwargs"

section \<open>The database setup script \<open>bin/mydojo-init.sh\<close>\<close>















text \<open>
  An instance of \<open>grep\<close> for patterns without regular-expression metacharacters and
  without blanks: a line is selected when the pattern occurs in it.
\<close>

fun starts_with :: "string \<Rightarrow> string \<Rightarrow> bool" where
  "starts_with [] ys = True"
| "starts_with (x # xs) [] = False"
| "starts_with (x # xs) (y # ys) = (x = y \<and> starts_with xs ys)"






section \<open>The site macros \<open>_macros_site.html\<close>\<close>

subsection \<open>Rendered markup\<close>

text \<open>
  A macro's output is kept as the sequence of nodes it writes: an element with its
  tag, its attributes in the order written and its children, a text node, a comment,
  or markup that a helper returns ready-made (the icon helper). White space between
  tags is left out.
\<close>

datatype html =
    Element string "(string \<times> string) list" "html list"
  | Text string
  | Comment string
  | Markup string

text \<open>The value of an attribute of a node; empty when the node has none of that name.\<close>

fun attribute :: "string \<Rightarrow> html \<Rightarrow> string" where
  "attribute name (Element t as cs) = (case map_of as name of Some v \<Rightarrow> v | None \<Rightarrow> [])"
| "attribute name (Text s) = []"
| "attribute name (Comment s) = []"
| "attribute name (Markup s) = []"

text \<open>The class names of a \<open>class\<close> attribute: its maximal runs of non-blank characters.\<close>

fun class_names :: "string \<Rightarrow> string \<Rightarrow> string list" where
  "class_names cur [] = (if cur = [] then [] else [cur])"
| "class_names cur (c # cs) =
     (if c = CHR '' ''
      then (if cur = [] then class_names [] cs else cur # class_names [] cs)
      else class_names (cur @ [c]) cs)"

definition has_class :: "string \<Rightarrow> html \<Rightarrow> bool" where
  "has_class c node = (c \<in> set (class_names [] (attribute ''class'' node)))"

fun has_tag :: "string \<Rightarrow> html \<Rightarrow> bool" where
  "has_tag name (Element t as cs) = (t = name)"
| "has_tag name (Text s) = False"
| "has_tag name (Comment s) = False"
| "has_tag name (Markup s) = False"

fun children :: "html \<Rightarrow> html list" where
  "children (Element t as cs) = cs"
| "children (Text s) = []"
| "children (Comment s) = []"
| "children (Markup s) = []"

text \<open>All elements of a rendered tree, the root first, in document order.\<close>

fun elements :: "html \<Rightarrow> html list" where
  "elements (Element t as cs) = Element t as cs # concat (map elements cs)"
| "elements (Text s) = []"
| "elements (Comment s) = []"
| "elements (Markup s) = []"

definition elements_of :: "html list \<Rightarrow> html list" where
  "elements_of nodes = concat (map elements nodes)"

text \<open>
  The greatest number of elements satisfying \<open>p\<close> that lie on one path from the
  root of a tree down to a leaf.
\<close>

fun nesting :: "(html \<Rightarrow> bool) \<Rightarrow> html \<Rightarrow> nat" where
  "nesting p (Element t as cs) =
     (if p (Element t as cs) then 1 else 0) + fold max (map (nesting p) cs) 0"
| "nesting p (Text s) = 0"
| "nesting p (Comment s) = 0"
| "nesting p (Markup s) = 0"

subsection \<open>Menu entries and the template environment\<close>

text \<open>
  The menu classes are Python code that the templates only call. A menu entry is
  modelled by what the macros read from it: the attributes \<open>ident\<close>, \<open>type\<close>,
  \<open>resptitle\<close> and \<open>align_right\<close>, and the results of its methods. The methods the
  action menu calls with \<open>item = context_item\<close> take the item; the main menu calls
  them without arguments, which is the call with no item. A string result that is
  empty is the falsy result of the template's \<open>if\<close>.
\<close>

datatype ('req, 'item) menu_item = MenuItem
  (ident: string)
  (type: string)
  (resptitle: bool)
  (align_right: bool)
  (get_url: "'item option \<Rightarrow> string")
  (get_legend: "'item option \<Rightarrow> string")
  (get_icon: "'item option \<Rightarrow> string")
  (get_title: "'item option \<Rightarrow> string")
  (get_entries: "'item option \<Rightarrow> ('req, 'item) menu_item list")
  (is_active: "'req \<Rightarrow> bool")

text \<open>
  The template globals: the icon helper \<open>get_icon(name)\<close> and the translation
  function \<open>_\<close>.
\<close>

record template_env =
  icon :: "string \<Rightarrow> string"
  gettext :: "string \<Rightarrow> string"

subsection \<open>\<open>render_navbar_main\<close>\<close>

text \<open>Lines 18 to 20 and 28 to 30: icon, title and the screen-reader marker of a link.\<close>

definition navbar_link_body ::
  "template_env \<Rightarrow> 'req \<Rightarrow> ('req, 'item) menu_item \<Rightarrow> bool \<Rightarrow> html list" where
  "navbar_link_body env request menu_item menu_item_is_active =
     (if get_icon menu_item None \<noteq> [] then [Markup (icon env (get_icon menu_item None))] else [])
     @ (if get_title menu_item None \<noteq> []
        then (if resptitle menu_item
              then [Element ''span'' [(''class'', ''d-none d-lg-inline'')]
                      [Text ('' '' @ get_title menu_item None)]]
              else [Text ('' '' @ get_title menu_item None)])
        else [])
     @ (if menu_item_is_active
        then [Element ''span'' [(''class'', ''sr-only'')]
                [Text (''('' @ gettext env ''current'' @ '')'')]]
        else [])"

text \<open>Lines 26 to 31: one entry of a submenu.\<close>

definition render_navbar_subitem ::
  "template_env \<Rightarrow> 'req \<Rightarrow> ('req, 'item) menu_item \<Rightarrow> html" where
  "render_navbar_subitem env request submenu_subitem =
     (let submenu_subitem_is_active = is_active submenu_subitem request
      in Element ''a''
           [(''class'', ''dropdown-item'' @ (if submenu_subitem_is_active then '' active'' else [])),
            (''href'', if submenu_subitem_is_active then ''#'' else get_url submenu_subitem None)]
           (navbar_link_body env request submenu_subitem submenu_subitem_is_active))"

text \<open>Lines 11 to 35: one entry of the main menu.\<close>

definition render_navbar_item ::
  "template_env \<Rightarrow> 'req \<Rightarrow> ('req, 'item) menu_item \<Rightarrow> html" where
  "render_navbar_item env request menu_item =
     (let menu_item_is_active = is_active menu_item request;
          menu_item_submenu = get_entries menu_item None
      in Element ''li''
           [(''class'', ''nav-item''
               @ (if type menu_item = ''submenu'' then '' dropdown''
                  else if is_active menu_item request then '' active'' else []))]
           ((if type menu_item = ''submenu''
             then Element ''a''
                    [(''class'', ''nav-link dropdown-toggle''),
                     (''href'', ''#''),
                     (''id'', ''navbar-dropdown-'' @ ident menu_item),
                     (''role'', ''button''),
                     (''data-toggle'', ''dropdown''),
                     (''aria-haspopup'', ''true''),
                     (''aria-expanded'', ''false'')]
                    (navbar_link_body env request menu_item menu_item_is_active)
             else Element ''a''
                    ([(''class'', ''nav-link''),
                      (''href'', if menu_item_is_active then ''#'' else get_url menu_item None)]
                     @ (if get_legend menu_item None \<noteq> []
                        then [(''data-toggle'', ''tooltip''), (''title'', get_legend menu_item None)]
                        else []))
                    (navbar_link_body env request menu_item menu_item_is_active))
            # (if type menu_item = ''submenu'' \<and> menu_item_submenu \<noteq> []
               then [Element ''div''
                       [(''class'', ''dropdown-menu''),
                        (''aria-labelledby'', ''navbar-dropdown-'' @ ident menu_item)]
                       (map (render_navbar_subitem env request) menu_item_submenu)]
               else [])))"

text \<open>
  The macro. Its argument \<open>mydojo_navbar_main\<close> is the result of
  \<open>mydojo_navbar_main.get_entries()\<close>.
\<close>

definition render_navbar_main ::
  "template_env \<Rightarrow> 'req \<Rightarrow> ('req, 'item) menu_item list \<Rightarrow> html list" where
  "render_navbar_main env request mydojo_navbar_main =
     [Comment '' Main menu widget - BEGIN ---------------------------'',
      Element ''ul'' [(''class'', ''navbar-nav mr-auto'')]
        (map (render_navbar_item env request) mydojo_navbar_main),
      Comment '' Main menu widget - END -----------------------------'']"

subsection \<open>\<open>render_menu_actions\<close> and its two callers\<close>

text \<open>Lines 80, 86 and 92: icon and title of an action.\<close>

definition action_body ::
  "template_env \<Rightarrow> 'item option \<Rightarrow> ('req, 'item) menu_item \<Rightarrow> html list" where
  "action_body env context_item menu_item =
     (if get_icon menu_item context_item \<noteq> []
      then [Markup (icon env (get_icon menu_item context_item))] else [])
     @ (if get_title menu_item context_item \<noteq> []
        then (if resptitle menu_item
              then [Element ''span'' [(''class'', ''hidden-sm'')]
                      [Text ('' '' @ get_title menu_item context_item)]]
              else [Text ('' '' @ get_title menu_item context_item)])
        else [])"

definition tooltip_attributes ::
  "'item option \<Rightarrow> ('req, 'item) menu_item \<Rightarrow> (string \<times> string) list" where
  "tooltip_attributes context_item menu_item =
     (if get_legend menu_item context_item \<noteq> []
      then [(''data-toggle'', ''tooltip''), (''title'', get_legend menu_item context_item)]
      else [])"

text \<open>Lines 85 to 87: one entry of an action submenu.\<close>

definition render_action_subitem ::
  "template_env \<Rightarrow> 'item option \<Rightarrow> ('req, 'item) menu_item \<Rightarrow> html" where
  "render_action_subitem env context_item submenu_item =
     Element ''a''
       ([(''class'', ''dropdown-item''), (''href'', get_url submenu_item context_item)]
        @ tooltip_attributes context_item submenu_item)
       (action_body env context_item submenu_item)"

text \<open>Lines 77 to 94: one entry of an action menu, as the nodes it adds to the button group.\<close>

definition render_action_item ::
  "template_env \<Rightarrow> 'item option \<Rightarrow> ('req, 'item) menu_item \<Rightarrow> html list" where
  "render_action_item env context_item menu_item =
     (if type menu_item = ''submenu''
      then [Element ''a''
              [(''data-toggle'', ''dropdown''), (''role'', ''button''), (''aria-haspopup'', ''true''),
               (''href'', ''#''), (''class'', ''btn btn-secondary btn-sm dropdown-toggle''),
               (''aria-expanded'', ''false'')]
              [Element ''span'' (tooltip_attributes context_item menu_item)
                 (action_body env context_item menu_item
                  @ [Element ''span'' [(''class'', ''caret'')] []])],
            Element ''ul''
              [(''class'', ''dropdown-menu''
                  @ (if align_right menu_item then '' dropdown-menu-right'' else []))]
              (map (render_action_subitem env context_item) (get_entries menu_item context_item))]
      else [Element ''a''
              ([(''role'', ''button''), (''class'', ''btn btn-secondary btn-sm''),
                (''href'', get_url menu_item context_item)]
               @ tooltip_attributes context_item menu_item)
              (action_body env context_item menu_item)])"

text \<open>
  The macro. An action menu is modelled by its \<open>get_entries\<close> method; \<open>None\<close> is the
  missing menu, which the template's \<open>if\<close> takes as false.
\<close>

definition render_menu_actions ::
  "template_env \<Rightarrow> ('item option \<Rightarrow> ('req, 'item) menu_item list) option \<Rightarrow> 'item option
     \<Rightarrow> string \<Rightarrow> html list" where
  "render_menu_actions env action_menu context_item cssclass =
     (case action_menu of
        None \<Rightarrow> []
      | Some menu \<Rightarrow>
          (let menu_item_list = menu context_item
           in if menu_item_list \<noteq> []
              then [Comment '' Item context action menu widget - BEGIN ----------------'',
                    Element ''div''
                      [(''class'', ''btn-toolbar'' @ (if cssclass \<noteq> [] then '' '' @ cssclass else [])),
                       (''role'', ''toolbar''),
                       (''aria-label'', gettext env ''Item context action toolbar'')]
                      [Element ''div''
                         [(''class'', ''btn-group btn-group-sm''),
                          (''role'', ''group''),
                          (''aria-label'', gettext env ''Item context action buttons'')]
                         (concat (map (render_action_item env context_item) menu_item_list))],
                    Comment '' Item context action menu widget - END ------------------'']
              else []))"

text \<open>
  The two callers fall back to the menus of the current view, given here as
  \<open>get_action_menu\<close> and \<open>get_context_action_menu\<close>.
\<close>

definition render_navbar_actions ::
  "template_env \<Rightarrow> ('item option \<Rightarrow> ('req, 'item) menu_item list) option
     \<Rightarrow> ('item option \<Rightarrow> ('req, 'item) menu_item list) option \<Rightarrow> 'item option
     \<Rightarrow> string \<Rightarrow> html list" where
  "render_navbar_actions env get_action_menu action_menu context_item css_class =
     render_menu_actions env
       (case action_menu of None \<Rightarrow> get_action_menu | Some menu \<Rightarrow> Some menu)
       context_item css_class"

definition render_menu_context_actions ::
  "template_env \<Rightarrow> ('item option \<Rightarrow> ('req, 'item) menu_item list) option
     \<Rightarrow> 'item option \<Rightarrow> ('item option \<Rightarrow> ('req, 'item) menu_item list) option
     \<Rightarrow> string \<Rightarrow> html list" where
  "render_menu_context_actions env get_context_action_menu context_item action_menu css_class =
     render_menu_actions env
       (case action_menu of None \<Rightarrow> get_context_action_menu | Some menu \<Rightarrow> Some menu)
       context_item css_class"

text \<open>
  The two readings of \<open>depth\<close> for a rendered menu: an entry is an element of
  class \<open>nav-item\<close> or \<open>dropdown-item\<close>, a menu list is an element of class
  \<open>navbar-nav\<close> or \<open>dropdown-menu\<close>.
\<close>

definition is_entry :: "html \<Rightarrow> bool" where
  "is_entry node = (has_class ''nav-item'' node \<or> has_class ''dropdown-item'' node)"

definition is_menu_list :: "html \<Rightarrow> bool" where
  "is_menu_list node = (has_class ''navbar-nav'' node \<or> has_class ''dropdown-menu'' node)"

text \<open>Sample data: an environment, a leaf entry active on its own URL, and a submenu
  that is active when one of its entries is.\<close>

definition example_env :: template_env where
  "example_env =
     \<lparr>icon = (\<lambda>name. ''<i class=fa-'' @ name @ ''></i>''), gettext = (\<lambda>msg. msg)\<rparr>"

definition example_leaf :: "string \<Rightarrow> string \<Rightarrow> (string, unit) menu_item" where
  "example_leaf name url =
     MenuItem name ''endpoint'' False False (\<lambda>item. url) (\<lambda>item. []) (\<lambda>item. [])
       (\<lambda>item. name) (\<lambda>item. []) (\<lambda>request. request = url)"

definition example_submenu ::
  "string \<Rightarrow> (string, unit) menu_item list \<Rightarrow> (string, unit) menu_item" where
  "example_submenu name entries =
     MenuItem name ''submenu'' False False (\<lambda>item. []) (\<lambda>item. []) (\<lambda>item. [])
       (\<lambda>item. name) (\<lambda>item. entries)
       (\<lambda>request. list_ex (\<lambda>e. is_active e request) entries)"

section \<open>The build configuration \<open>Gruntfile.js\<close>\<close>

text \<open>
  The working tree is the list of its files, each a path with its content; the
  first entry for a path is the file. Directories exist through the files below
  them.
\<close>

type_synonym tree = "(string \<times> string) list"

definition write_file :: "string \<Rightarrow> string \<Rightarrow> tree \<Rightarrow> tree" where
  "write_file p c fs = (p, c) # filter (\<lambda>(q, _). q \<noteq> p) fs"

text \<open>Whether \<open>p\<close> is the path \<open>dir\<close> or lies below it.\<close>

definition below :: "string \<Rightarrow> string \<Rightarrow> bool" where
  "below dir p = (p = dir \<or> starts_with (dir @ ''/'') p)"

text \<open>\<open>grunt-contrib-clean\<close> on one path: the path and everything below it is deleted.\<close>

definition remove_tree :: "string \<Rightarrow> tree \<Rightarrow> tree" where
  "remove_tree dir fs = filter (\<lambda>(p, _). \<not> below dir p) fs"

definition basename :: "string \<Rightarrow> string" where
  "basename p = rev (takeWhile (\<lambda>c. c \<noteq> CHR ''/'') (rev p))"

subsection \<open>\<open>grunt.initConfig\<close>\<close>

definition paths_project :: "(string \<times> string) list" where
  "paths_project =
     [(''web_static'', ''mydojo/static/''),
      (''web_templates'', ''mydojo/templates/''),
      (''web_design_static'', ''mydojo/blueprints/design/static/''),
      (''web_design_templates'', ''mydojo/blueprints/design/templates/'')]"

text \<open>The template \<open><%= paths_project.key %>\<close>.\<close>

definition project_path :: "string \<Rightarrow> string" where
  "project_path key = (case map_of paths_project key of Some p \<Rightarrow> p | None \<Rightarrow> [])"

definition clean_vendor :: "string list" where
  "clean_vendor = [project_path ''web_design_static'' @ ''vendor'']"

definition shell_yarn_install :: string where
  "shell_yarn_install = ''yarn install''"

definition shell_pybabel :: string where
  "shell_pybabel = ''make pybabel-compile''"

record file_mapping =
  expand :: bool
  flatten :: bool
  cwd :: string
  src :: string
  dest :: string

definition copy_vendor :: "file_mapping list" where
  "copy_vendor =
     [\<lparr>expand = True, flatten = True, cwd = ''node_modules/bootstrap/dist/css/'', src = ''./*'',
       dest = project_path ''web_design_static'' @ ''vendor/bootstrap/css/''\<rparr>,
      \<lparr>expand = True, flatten = True, cwd = ''node_modules/bootstrap/dist/js/'', src = ''./*'',
       dest = project_path ''web_design_static'' @ ''vendor/bootstrap/js/''\<rparr>,
      \<lparr>expand = True, flatten = True, cwd = ''node_modules/@fortawesome/fontawesome-pro/css/'',
       src = ''./**'',
       dest = project_path ''web_design_static'' @ ''vendor/font-awesome/css/''\<rparr>,
      \<lparr>expand = True, flatten = True, cwd = ''node_modules/@fortawesome/fontawesome-pro/js/'',
       src = ''./**'',
       dest = project_path ''web_design_static'' @ ''vendor/font-awesome/js/''\<rparr>,
      \<lparr>expand = True, flatten = True,
       cwd = ''node_modules/@fortawesome/fontawesome-pro/webfonts/'', src = ''./**'',
       dest = project_path ''web_design_static'' @ ''vendor/font-awesome/webfonts/''\<rparr>,
      \<lparr>expand = True, flatten = True, cwd = ''node_modules/jquery/dist/'', src = ''./**'',
       dest = project_path ''web_design_static'' @ ''vendor/jquery/js/''\<rparr>,
      \<lparr>expand = True, flatten = True, cwd = ''node_modules/popper.js/dist/'', src = ''./**'',
       dest = project_path ''web_design_static'' @ ''vendor/popper/js/''\<rparr>]"

definition webui :: "string list" where
  "webui = [''shell:yarn_install'', ''shell:pybabel'', ''clean:vendor'', ''copy:vendor'']"

subsection \<open>Running the tasks\<close>

text \<open>
  The plugins are not part of the repository. Two of their behaviours are
  parameters: \<open>sh cmd fs\<close> is the tree a shell command leaves, or \<open>None\<close> when the
  command fails, and \<open>glob pattern rel\<close> tells whether the pattern selects the path
  \<open>rel\<close>, taken relative to \<open>cwd\<close>. An expanded mapping pairs every selected file
  below \<open>cwd\<close> with its destination: \<open>dest\<close> followed by the file's base name when
  \<open>flatten\<close> is set, by its relative path otherwise.
\<close>

definition expand_mapping ::
  "(string \<Rightarrow> string \<Rightarrow> bool) \<Rightarrow> file_mapping \<Rightarrow> tree \<Rightarrow> (string \<times> string) list" where
  "expand_mapping glob m fs =
     map (\<lambda>(p, _). (p, dest m @ (if flatten m then basename (drop (length (cwd m)) p)
                                   else drop (length (cwd m)) p)))
       (filter (\<lambda>(p, _). starts_with (cwd m) p \<and> glob (src m) (drop (length (cwd m)) p)) fs)"

definition copy_file :: "string \<times> string \<Rightarrow> tree \<Rightarrow> tree" where
  "copy_file sd fs = (case map_of fs (fst sd) of Some c \<Rightarrow> write_file (snd sd) c fs | None \<Rightarrow> fs)"

text \<open>\<open>grunt-contrib-copy\<close>: the file lists are expanded when the task starts, then each
  file is copied in turn.\<close>

definition copy_task :: "(string \<Rightarrow> string \<Rightarrow> bool) \<Rightarrow> file_mapping list \<Rightarrow> tree \<Rightarrow> tree" where
  "copy_task glob files fs = fold copy_file (concat (map (\<lambda>m. expand_mapping glob m fs) files)) fs"

definition run_task ::
  "(string \<Rightarrow> tree \<Rightarrow> tree option) \<Rightarrow> (string \<Rightarrow> string \<Rightarrow> bool) \<Rightarrow> string \<Rightarrow> tree \<Rightarrow> tree option" where
  "run_task sh glob name fs =
     (if name = ''shell:yarn_install'' then sh shell_yarn_install fs
      else if name = ''shell:pybabel'' then sh shell_pybabel fs
      else if name = ''clean:vendor'' then Some (fold remove_tree clean_vendor fs)
      else if name = ''copy:vendor'' then Some (copy_task glob copy_vendor fs)
      else None)"

text \<open>A task list runs in order and stops at the first task that fails.\<close>

fun run_tasks ::
  "(string \<Rightarrow> tree \<Rightarrow> tree option) \<Rightarrow> (string \<Rightarrow> string \<Rightarrow> bool) \<Rightarrow> string list \<Rightarrow> tree \<Rightarrow> tree option" where
  "run_tasks sh glob [] fs = Some fs"
| "run_tasks sh glob (name # names) fs =
     (case run_task sh glob name fs of None \<Rightarrow> None | Some fs' \<Rightarrow> run_tasks sh glob names fs')"

definition run_webui ::
  "(string \<Rightarrow> tree \<Rightarrow> tree option) \<Rightarrow> (string \<Rightarrow> string \<Rightarrow> bool) \<Rightarrow> tree \<Rightarrow> tree option" where
  "run_webui sh glob fs = run_tasks sh glob webui fs"

text \<open>Sample data: shell commands that change nothing, and the two patterns of the
  configuration read as \<open>every file directly in the directory\<close> and \<open>every file
  below the directory\<close>.\<close>

definition example_glob :: "string \<Rightarrow> string \<Rightarrow> bool" where
  "example_glob pattern rel =
     (if pattern = ''./*'' then rel \<noteq> [] \<and> CHR ''/'' \<notin> set rel
      else if pattern = ''./**'' then rel \<noteq> []
      else False)"

definition example_tree :: tree where
  "example_tree =
     [(''node_modules/jquery/dist/jquery.js'', ''jquery 3''),
      (''mydojo/blueprints/design/static/vendor/jquery/js/old.js'', ''jquery 1''),
      (''mydojo/blueprints/design/static/css/site.css'', ''body {}'')]"

section \<open>Properties of \<open>mydojo-main.js\<close>\<close>

















section \<open>Properties of the WSGI entry point\<close>

text \<open>
  C4. The application object is the factory's result on exactly three keyword
  arguments: \<open>config_object\<close> is the class name \<open>mydojo.config.ProductionConfig\<close>,
  \<open>config_file\<close> is the path \<open>/etc/mydojo/mydojo.conf\<close>, and \<open>config_env\<close> is the
  environment variable name \<open>FLASK_CONFIG_FILE\<close>.
\<close>

theorem application_factory_call:
  "application create_app_full = create_app_full application_kwargs
   \<and> map fst application_kwargs = [''config_object'', ''config_file'', ''config_env'']
   \<and> map_of application_kwargs ''config_object'' = Some ''mydojo.config.ProductionConfig''
   \<and> map_of application_kwargs ''config_file'' = Some ''/etc/mydojo/mydojo.conf''
   \<and> map_of application_kwargs ''config_env'' = Some ''FLASK_CONFIG_FILE''"
  by (simp add: application_def application_kwargs_def)

section \<open>Properties of \<open>mydojo-init.sh\<close>\<close>




















section \<open>Properties of the site macros\<close>

lemma elements_of_simps:
  "elements_of [] = []"
  "elements_of (n # ns) = elements n @ elements_of ns"
  "elements_of (ms @ ns) = elements_of ms @ elements_of ns"
  by (simp_all add: elements_of_def)

lemma elements_unfold [simp]: "elements (Element t as cs) = Element t as cs # elements_of cs"
  by (simp add: elements_of_def)

declare elements.simps(1) [simp del]

lemma fold_max_le:
  "a \<le> n \<Longrightarrow> (\<And>x. x \<in> set xs \<Longrightarrow> x \<le> (n::nat)) \<Longrightarrow> fold max xs a \<le> n"
  by (induction xs arbitrary: a) simp_all

lemma navbar_link_body_elements:
  "filter (has_class ''active'') (elements_of (navbar_link_body env request mi a)) = []"
  "filter (has_class ''dropdown-menu'') (elements_of (navbar_link_body env request mi a)) = []"
  "filter (has_class ''dropdown-item'') (elements_of (navbar_link_body env request mi a)) = []"
  "filter (has_tag ''a'') (elements_of (navbar_link_body env request mi a)) = []"
  by (simp_all add: navbar_link_body_def elements_of_simps has_class_def)

lemma navbar_link_body_nesting:
  "x \<in> set (map (nesting is_entry) (navbar_link_body env request mi a)) \<Longrightarrow> x = 0"
  "x \<in> set (map (nesting is_menu_list) (navbar_link_body env request mi a)) \<Longrightarrow> x = 0"
  by (auto simp: navbar_link_body_def is_entry_def is_menu_list_def has_class_def split: if_splits)

lemma subitem_active:
  "filter (has_class ''active'') (elements (render_navbar_subitem env request s)) =
     (if is_active s request then [render_navbar_subitem env request s] else [])"
  unfolding render_navbar_subitem_def Let_def elements_unfold
  by (simp add: navbar_link_body_elements has_class_def)

lemma subitems_active:
  "filter (has_class ''active'') (elements_of (map (render_navbar_subitem env request) es)) =
     map (render_navbar_subitem env request) (filter (\<lambda>s. is_active s request) es)"
  by (induction es) (simp_all add: elements_of_simps subitem_active)

lemma item_active:
  "filter (has_class ''active'') (elements (render_navbar_item env request mi)) =
     (if type mi = ''submenu''
      then map (render_navbar_subitem env request)
             (filter (\<lambda>s. is_active s request) (get_entries mi None))
      else if is_active mi request then [render_navbar_item env request mi] else [])"
  unfolding render_navbar_item_def Let_def elements_unfold
  by (simp add: elements_of_simps elements_unfold navbar_link_body_elements subitems_active
        has_class_def)

lemma items_active:
  "filter (has_class ''active'') (elements_of (map (render_navbar_item env request) menu)) =
     concat (map (\<lambda>mi. if type mi = ''submenu''
                        then map (render_navbar_subitem env request)
                               (filter (\<lambda>s. is_active s request) (get_entries mi None))
                        else if is_active mi request then [render_navbar_item env request mi]
                        else []) menu)"
  by (induction menu) (simp_all add: elements_of_simps item_active)

text \<open>
  C1, as the template has it. The \<open>li\<close> of a main-menu entry carries the class
  \<open>active\<close> exactly when the entry is not of type \<open>submenu\<close> and its \<open>is_active\<close>
  holds for the request; the link of a submenu entry carries it exactly when the
  entry's \<open>is_active\<close> holds. In the whole output these are the only elements of
  class \<open>active\<close>: for an entry of type \<open>submenu\<close> the links of its active
  sub-entries, for any other entry its \<open>li\<close> when the entry is active. The \<open>li\<close>
  carries the class \<open>dropdown\<close> exactly when the entry is of type \<open>submenu\<close>.
\<close>

theorem render_navbar_main_active:
  "(has_class ''active'' (render_navbar_item env request mi)
      \<longleftrightarrow> type mi \<noteq> ''submenu'' \<and> is_active mi request)
   \<and> (has_class ''active'' (render_navbar_subitem env request si) \<longleftrightarrow> is_active si request)
   \<and> filter (has_class ''active'') (elements_of (render_navbar_main env request menu)) =
       concat (map (\<lambda>mi. if type mi = ''submenu''
                          then map (render_navbar_subitem env request)
                                 (filter (\<lambda>s. is_active s request) (get_entries mi None))
                          else if is_active mi request then [render_navbar_item env request mi]
                          else []) menu)
   \<and> (has_class ''dropdown'' (render_navbar_item env request mi) \<longleftrightarrow> type mi = ''submenu'')"
proof -
  have dropdown: "has_class ''dropdown'' (render_navbar_item env request mi)
      \<longleftrightarrow> type mi = ''submenu''"
    by (simp add: render_navbar_item_def has_class_def Let_def)
  have top: "has_class ''active'' (render_navbar_item env request mi)
      \<longleftrightarrow> type mi \<noteq> ''submenu'' \<and> is_active mi request"
    by (simp add: render_navbar_item_def has_class_def Let_def)
  have sub: "has_class ''active'' (render_navbar_subitem env request si) \<longleftrightarrow> is_active si request"
    by (simp add: render_navbar_subitem_def has_class_def Let_def)
  have "filter (has_class ''active'') (elements_of (render_navbar_main env request menu)) =
        filter (has_class ''active'') (elements_of (map (render_navbar_item env request) menu))"
    by (simp add: render_navbar_main_def elements_of_simps elements_unfold has_class_def)
  with top sub dropdown show ?thesis by (simp add: items_active)
qed

theorem render_navbar_main_active_witness:
  "filter (has_class ''active'')
     (elements_of (render_navbar_main example_env ''/users''
        [example_leaf ''home'' ''/'', example_leaf ''users'' ''/users'']))
   = [render_navbar_item example_env ''/users'' (example_leaf ''users'' ''/users'')]"
  using render_navbar_main_active
    [of example_env "''/users''" "example_leaf ''users'' ''/users''" "example_leaf ''users'' ''/users''"
        "[example_leaf ''home'' ''/'', example_leaf ''users'' ''/users'']"]
  by (simp add: example_leaf_def)

text \<open>
  A submenu whose \<open>is_active\<close> holds for the request is rendered without the class
  \<open>active\<close>: line 12 writes \<open>dropdown\<close> for it and reaches the \<open>elif\<close> only for
  other types.
\<close>

theorem render_navbar_main_submenu_counterexample:
  "is_active (example_submenu ''admin'' [example_leaf ''users'' ''/users'']) ''/users''
   \<and> \<not> has_class ''active''
         (render_navbar_item example_env ''/users''
            (example_submenu ''admin'' [example_leaf ''users'' ''/users'']))"
  by (simp add: example_submenu_def example_leaf_def render_navbar_item_def has_class_def)

lemma subitem_shape:
  "has_tag ''a'' (render_navbar_subitem env request s)"
  "has_class ''dropdown-item'' (render_navbar_subitem env request s)"
  "filter (has_tag ''a'') (elements (render_navbar_subitem env request s))
     = [render_navbar_subitem env request s]"
  "filter (has_class ''dropdown-menu'') (elements (render_navbar_subitem env request s)) = []"
  "filter (has_class ''dropdown-item'') (elements (render_navbar_subitem env request s))
     = [render_navbar_subitem env request s]"
  by (simp_all add: render_navbar_subitem_def Let_def navbar_link_body_elements has_class_def)

lemma subitems_shape:
  "filter (has_tag ''a'') (elements_of (map (render_navbar_subitem env request) es))
     = map (render_navbar_subitem env request) es"
  "filter (has_class ''dropdown-menu'') (elements_of (map (render_navbar_subitem env request) es)) = []"
  "filter (has_class ''dropdown-item'') (elements_of (map (render_navbar_subitem env request) es))
     = map (render_navbar_subitem env request) es"
  by (induction es) (simp_all add: elements_of_simps subitem_shape del: elements_unfold)

lemma subitem_nesting:
  "nesting is_entry (render_navbar_subitem env request s) = 1"
  "nesting is_menu_list (render_navbar_subitem env request s) = 0"
proof -
  have e: "fold max (map (nesting is_entry) (navbar_link_body env request s a)) 0 = 0" for a
    using fold_max_le [of 0 0 "map (nesting is_entry) (navbar_link_body env request s a)"]
      navbar_link_body_nesting(1) [of _ env request s a] by fastforce
  have m: "fold max (map (nesting is_menu_list) (navbar_link_body env request s a)) 0 = 0" for a
    using fold_max_le [of 0 0 "map (nesting is_menu_list) (navbar_link_body env request s a)"]
      navbar_link_body_nesting(2) [of _ env request s a] by fastforce
  show "nesting is_entry (render_navbar_subitem env request s) = 1"
    by (simp add: render_navbar_subitem_def Let_def e is_entry_def has_class_def)
  show "nesting is_menu_list (render_navbar_subitem env request s) = 0"
    by (simp add: render_navbar_subitem_def Let_def m is_menu_list_def has_class_def)
qed

lemma item_nesting:
  "nesting is_entry (render_navbar_item env request mi) \<le> 2"
  "nesting is_menu_list (render_navbar_item env request mi) \<le> 1"
proof -
  have e: "fold max (map (nesting is_entry) (navbar_link_body env request mi a)) 0 = 0" for a
    using fold_max_le [of 0 0 "map (nesting is_entry) (navbar_link_body env request mi a)"]
      navbar_link_body_nesting(1) [of _ env request mi a] by fastforce
  have m: "fold max (map (nesting is_menu_list) (navbar_link_body env request mi a)) 0 = 0" for a
    using fold_max_le [of 0 0 "map (nesting is_menu_list) (navbar_link_body env request mi a)"]
      navbar_link_body_nesting(2) [of _ env request mi a] by fastforce
  have se: "fold max (map (nesting is_entry) (map (render_navbar_subitem env request) es)) 0 \<le> 1" for es
    by (rule fold_max_le) (auto simp: subitem_nesting)
  have sm: "fold max (map (nesting is_menu_list) (map (render_navbar_subitem env request) es)) 0 \<le> 0" for es
    by (rule fold_max_le) (auto simp: subitem_nesting)
  show "nesting is_entry (render_navbar_item env request mi) \<le> 2"
    using se [of "get_entries mi None"]
    by (simp add: render_navbar_item_def Let_def e is_entry_def has_class_def)
  show "nesting is_menu_list (render_navbar_item env request mi) \<le> 1"
    using sm [of "get_entries mi None"]
    by (simp add: render_navbar_item_def Let_def m is_menu_list_def has_class_def)
qed

lemma navbar_nesting:
  "nesting is_entry (Element ''ul'' [(''class'', ''navbar-nav mr-auto'')]
        (map (render_navbar_item env request) menu)) \<le> 2"
  "nesting is_menu_list (Element ''ul'' [(''class'', ''navbar-nav mr-auto'')]
        (map (render_navbar_item env request) menu)) \<le> 2"
proof -
  have e: "fold max (map (nesting is_entry) (map (render_navbar_item env request) menu)) 0 \<le> 2"
    by (rule fold_max_le) (auto simp: item_nesting)
  have m: "fold max (map (nesting is_menu_list) (map (render_navbar_item env request) menu)) 0 \<le> 1"
  proof (rule fold_max_le)
    fix x assume "x \<in> set (map (nesting is_menu_list) (map (render_navbar_item env request) menu))"
    then show "x \<le> 1" using item_nesting(2) [of env request] by auto
  qed simp
  show "nesting is_entry (Element ''ul'' [(''class'', ''navbar-nav mr-auto'')]
        (map (render_navbar_item env request) menu)) \<le> 2"
    using e by (simp add: is_entry_def has_class_def)
  show "nesting is_menu_list (Element ''ul'' [(''class'', ''navbar-nav mr-auto'')]
        (map (render_navbar_item env request) menu)) \<le> 2"
    using m by (simp add: is_menu_list_def has_class_def)
qed


lemma item_submenu_shape:
  assumes "type mi = ''submenu''"
  shows "has_class ''dropdown'' (render_navbar_item env request mi)"
    and "has_tag ''a'' (hd (children (render_navbar_item env request mi)))"
    and "has_class ''dropdown-toggle'' (hd (children (render_navbar_item env request mi)))"
    and "filter (has_class ''dropdown-item'') (elements (render_navbar_item env request mi))
           = map (render_navbar_subitem env request) (get_entries mi None)"
    and "map children
           (filter (has_class ''dropdown-menu'') (elements (render_navbar_item env request mi)))
           = (if get_entries mi None = [] then []
              else [map (render_navbar_subitem env request) (get_entries mi None)])"
  using assms
  by (simp_all add: render_navbar_item_def Let_def elements_of_simps navbar_link_body_elements
        subitems_shape has_class_def)

lemma item_leaf_shape:
  assumes "type mi \<noteq> ''submenu''"
  shows "length (children (render_navbar_item env request mi)) = 1"
    and "has_class ''nav-link'' (hd (children (render_navbar_item env request mi)))"
    and "filter (has_tag ''a'') (elements (render_navbar_item env request mi))
           = children (render_navbar_item env request mi)"
    and "filter (has_class ''dropdown-menu'') (elements (render_navbar_item env request mi)) = []"
    and "filter (has_class ''dropdown-item'') (elements (render_navbar_item env request mi)) = []"
  using assms
  by (simp_all add: render_navbar_item_def Let_def elements_of_simps navbar_link_body_elements
        has_class_def)

lemma navbar_link_body_entries:
  "filter (has_class ''nav-item'') (elements_of (navbar_link_body env request mi a)) = []"
  "filter (has_class ''navbar-nav'') (elements_of (navbar_link_body env request mi a)) = []"
  by (simp_all add: navbar_link_body_def elements_of_simps has_class_def)

lemma subitems_entries:
  "filter (has_class ''nav-item'') (elements_of (map (render_navbar_subitem env request) es)) = []"
  "filter (has_class ''navbar-nav'') (elements_of (map (render_navbar_subitem env request) es)) = []"
  by (induction es)
     (simp_all add: elements_of_simps render_navbar_subitem_def Let_def navbar_link_body_entries
        has_class_def)

lemma item_elements:
  "filter (has_class ''nav-item'') (elements (render_navbar_item env request mi))
     = [render_navbar_item env request mi]"
  "filter (has_class ''navbar-nav'') (elements (render_navbar_item env request mi)) = []"
  "filter (has_class ''dropdown-item'') (elements (render_navbar_item env request mi))
     = (if type mi = ''submenu''
        then map (render_navbar_subitem env request) (get_entries mi None) else [])"
  "map children (filter (has_class ''dropdown-menu'') (elements (render_navbar_item env request mi)))
     = (if type mi = ''submenu'' \<and> get_entries mi None \<noteq> []
        then [map (render_navbar_subitem env request) (get_entries mi None)] else [])"
  "filter (has_tag ''a'') (elements (render_navbar_item env request mi))
     = hd (children (render_navbar_item env request mi))
       # (if type mi = ''submenu''
          then map (render_navbar_subitem env request) (get_entries mi None) else [])"
  by (simp_all add: render_navbar_item_def Let_def elements_of_simps navbar_link_body_elements
        navbar_link_body_entries subitems_shape subitems_entries has_class_def)

lemma items_elements:
  "filter (has_class ''nav-item'') (elements_of (map (render_navbar_item env request) menu))
     = map (render_navbar_item env request) menu"
  "filter (has_class ''navbar-nav'') (elements_of (map (render_navbar_item env request) menu)) = []"
  "filter (has_class ''dropdown-item'') (elements_of (map (render_navbar_item env request) menu))
     = concat (map (\<lambda>mi. if type mi = ''submenu''
                          then map (render_navbar_subitem env request) (get_entries mi None)
                          else []) menu)"
  "map children (filter (has_class ''dropdown-menu'')
       (elements_of (map (render_navbar_item env request) menu)))
     = concat (map (\<lambda>mi. if type mi = ''submenu'' \<and> get_entries mi None \<noteq> []
                          then [map (render_navbar_subitem env request) (get_entries mi None)]
                          else []) menu)"
  "filter (has_tag ''a'') (elements_of (map (render_navbar_item env request) menu))
     = concat (map (\<lambda>mi. hd (children (render_navbar_item env request mi))
                          # (if type mi = ''submenu''
                             then map (render_navbar_subitem env request) (get_entries mi None)
                             else [])) menu)"
  by (induction menu) (simp_all add: elements_of_simps item_elements del: elements_unfold)

lemma navbar_elements:
  "map children (filter (has_class ''navbar-nav'')
       (elements_of (render_navbar_main env request menu)))
     = [map (render_navbar_item env request) menu]"
  "filter (has_class c) (elements_of (render_navbar_main env request menu))
     = (if c \<in> set (class_names [] ''navbar-nav mr-auto'')
        then [Element ''ul'' [(''class'', ''navbar-nav mr-auto'')]
                (map (render_navbar_item env request) menu)] else [])
       @ filter (has_class c) (elements_of (map (render_navbar_item env request) menu))"
  "filter (has_tag ''a'') (elements_of (render_navbar_main env request menu))
     = filter (has_tag ''a'') (elements_of (map (render_navbar_item env request) menu))"
  by (simp_all add: render_navbar_main_def elements_of_simps items_elements has_class_def)

text \<open>
  C6, with the type as the template reads it. The one \<open>navbar-nav\<close> list of the
  output has as its children the rendered entries of the menu, in order, and these
  are all the \<open>nav-item\<close> elements. The \<open>dropdown-item\<close> elements of the output are
  the rendered sub-entries of the entries of type \<open>submenu\<close>, in order; each
  such entry with at least one sub-entry has one \<open>dropdown-menu\<close> container, whose
  children are exactly its rendered sub-entries, and there is no other container.
  The links of the output are, entry by entry, the entry's own link followed by
  the links of its sub-entries when it is a submenu. An entry of type \<open>submenu\<close> is
  a \<open>dropdown\<close> item whose first child is the toggle link; an entry of any other
  type has one child, a \<open>nav-link\<close>, and neither its type, as long as it is not
  \<open>submenu\<close>, nor its entries change its rendering. A sub-entry is one link with
  no container and no further link inside, and neither its type nor its own
  entries change its rendering, so it is never expanded. On every path of the
  output there are at most two entries and at most two menu lists, however deep the
  menu structure handed to the macro is.
\<close>

theorem render_navbar_main_tree:
  fixes menu :: "('req, 'item) menu_item list"
  shows
  "map children (filter (has_class ''navbar-nav'')
       (elements_of (render_navbar_main env request menu)))
     = [map (render_navbar_item env request) menu]
   \<and> filter (has_class ''nav-item'') (elements_of (render_navbar_main env request menu))
     = map (render_navbar_item env request) menu
   \<and> filter (has_class ''dropdown-item'') (elements_of (render_navbar_main env request menu))
     = concat (map (\<lambda>mi. if type mi = ''submenu''
                          then map (render_navbar_subitem env request) (get_entries mi None)
                          else []) menu)
   \<and> map children (filter (has_class ''dropdown-menu'')
         (elements_of (render_navbar_main env request menu)))
     = concat (map (\<lambda>mi. if type mi = ''submenu'' \<and> get_entries mi None \<noteq> []
                          then [map (render_navbar_subitem env request) (get_entries mi None)]
                          else []) menu)
   \<and> filter (has_tag ''a'') (elements_of (render_navbar_main env request menu))
     = concat (map (\<lambda>mi. hd (children (render_navbar_item env request mi))
                          # (if type mi = ''submenu''
                             then map (render_navbar_subitem env request) (get_entries mi None)
                             else [])) menu)
   \<and> (\<forall>mi \<in> set menu.
        (type mi = ''submenu'' \<longrightarrow>
           has_class ''dropdown'' (render_navbar_item env request mi)
           \<and> has_tag ''a'' (hd (children (render_navbar_item env request mi)))
           \<and> has_class ''dropdown-toggle'' (hd (children (render_navbar_item env request mi))))
        \<and> (type mi \<noteq> ''submenu'' \<longrightarrow>
           \<not> has_class ''dropdown'' (render_navbar_item env request mi)
           \<and> length (children (render_navbar_item env request mi)) = 1
           \<and> has_tag ''a'' (hd (children (render_navbar_item env request mi)))
           \<and> has_class ''nav-link'' (hd (children (render_navbar_item env request mi))))
        \<and> (\<forall>si \<in> set (get_entries mi None).
              has_tag ''a'' (render_navbar_subitem env request si)
              \<and> filter (has_tag ''a'') (elements (render_navbar_subitem env request si))
                   = [render_navbar_subitem env request si]
              \<and> filter (has_class ''dropdown-menu'')
                   (elements (render_navbar_subitem env request si)) = []))
   \<and> (t \<noteq> ''submenu'' \<and> t' \<noteq> ''submenu'' \<longrightarrow>
        render_navbar_item env request (MenuItem i t r al u l ic ti es act)
          = render_navbar_item env request (MenuItem i t' r al' u l ic ti es' act))
   \<and> render_navbar_subitem env request (MenuItem i t r al u l ic ti es act)
        = render_navbar_subitem env request (MenuItem i' t' r al' u l' ic ti es' act)
   \<and> (\<forall>node \<in> set (render_navbar_main env request menu).
        nesting is_entry node \<le> 2 \<and> nesting is_menu_list node \<le> 2)"
proof -
  have lists: "map children (filter (has_class ''navbar-nav'')
       (elements_of (render_navbar_main env request menu)))
     = [map (render_navbar_item env request) menu]"
    by (rule navbar_elements(1))
  have entries: "filter (has_class ''nav-item'') (elements_of (render_navbar_main env request menu))
     = map (render_navbar_item env request) menu"
    by (simp add: navbar_elements(2) items_elements)
  have subentries: "filter (has_class ''dropdown-item'')
       (elements_of (render_navbar_main env request menu))
     = concat (map (\<lambda>mi. if type mi = ''submenu''
                          then map (render_navbar_subitem env request) (get_entries mi None)
                          else []) menu)"
    by (simp add: navbar_elements(2) items_elements)
  have containers: "map children (filter (has_class ''dropdown-menu'')
         (elements_of (render_navbar_main env request menu)))
     = concat (map (\<lambda>mi. if type mi = ''submenu'' \<and> get_entries mi None \<noteq> []
                          then [map (render_navbar_subitem env request) (get_entries mi None)]
                          else []) menu)"
    by (simp add: navbar_elements(2) items_elements)
  have links: "filter (has_tag ''a'') (elements_of (render_navbar_main env request menu))
     = concat (map (\<lambda>mi. hd (children (render_navbar_item env request mi))
                          # (if type mi = ''submenu''
                             then map (render_navbar_subitem env request) (get_entries mi None)
                             else [])) menu)"
    by (simp add: navbar_elements(3) items_elements)
  have shape: "(type mi = ''submenu'' \<longrightarrow>
           has_class ''dropdown'' (render_navbar_item env request mi)
           \<and> has_tag ''a'' (hd (children (render_navbar_item env request mi)))
           \<and> has_class ''dropdown-toggle'' (hd (children (render_navbar_item env request mi))))
        \<and> (type mi \<noteq> ''submenu'' \<longrightarrow>
           \<not> has_class ''dropdown'' (render_navbar_item env request mi)
           \<and> length (children (render_navbar_item env request mi)) = 1
           \<and> has_tag ''a'' (hd (children (render_navbar_item env request mi)))
           \<and> has_class ''nav-link'' (hd (children (render_navbar_item env request mi))))"
    for mi :: "('req, 'item) menu_item"
    by (simp add: render_navbar_item_def Let_def has_class_def)
  have leaf_type: "render_navbar_item env request (MenuItem i t r al u l ic ti es act)
        = render_navbar_item env request (MenuItem i t' r al' u l ic ti es' act)"
    if "t \<noteq> ''submenu''" "t' \<noteq> ''submenu''"
    using that by (simp add: render_navbar_item_def navbar_link_body_def Let_def)
  have sub_indep: "render_navbar_subitem env request (MenuItem i t r al u l ic ti es act)
        = render_navbar_subitem env request (MenuItem i' t' r al' u l' ic ti es' act)"
    by (simp add: render_navbar_subitem_def navbar_link_body_def Let_def)
  have depth: "\<forall>node \<in> set (render_navbar_main env request menu).
        nesting is_entry node \<le> 2 \<and> nesting is_menu_list node \<le> 2"
    using navbar_nesting [of env request menu] by (simp add: render_navbar_main_def)
  have per_entry: "\<forall>mi \<in> set menu.
        (type mi = ''submenu'' \<longrightarrow>
           has_class ''dropdown'' (render_navbar_item env request mi)
           \<and> has_tag ''a'' (hd (children (render_navbar_item env request mi)))
           \<and> has_class ''dropdown-toggle'' (hd (children (render_navbar_item env request mi))))
        \<and> (type mi \<noteq> ''submenu'' \<longrightarrow>
           \<not> has_class ''dropdown'' (render_navbar_item env request mi)
           \<and> length (children (render_navbar_item env request mi)) = 1
           \<and> has_tag ''a'' (hd (children (render_navbar_item env request mi)))
           \<and> has_class ''nav-link'' (hd (children (render_navbar_item env request mi))))
        \<and> (\<forall>si \<in> set (get_entries mi None).
              has_tag ''a'' (render_navbar_subitem env request si)
              \<and> filter (has_tag ''a'') (elements (render_navbar_subitem env request si))
                   = [render_navbar_subitem env request si]
              \<and> filter (has_class ''dropdown-menu'')
                   (elements (render_navbar_subitem env request si)) = [])"
    using shape subitem_shape(1,3,4) [of env request] by blast
  from lists entries subentries containers links per_entry leaf_type sub_indep depth
  show ?thesis by blast
qed


theorem render_navbar_main_tree_witness:
  "filter (has_class ''dropdown-item'')
     (elements_of (render_navbar_main example_env ''/''
        [example_leaf ''home'' ''/'',
         example_submenu ''admin''
           [example_leaf ''users'' ''/users'',
            example_submenu ''nested'' [example_leaf ''deep'' ''/deep'']]]))
   = [render_navbar_subitem example_env ''/'' (example_leaf ''users'' ''/users''),
      render_navbar_subitem example_env ''/''
        (example_submenu ''nested'' [example_leaf ''deep'' ''/deep''])]"
proof -
  let ?menu = "[example_leaf ''home'' ''/'',
         example_submenu ''admin''
           [example_leaf ''users'' ''/users'',
            example_submenu ''nested'' [example_leaf ''deep'' ''/deep'']]]"
  from render_navbar_main_tree
         [where menu = "?menu" and env = example_env and request = "''/''",
          THEN conjunct2, THEN conjunct2, THEN conjunct1]
  have "filter (has_class ''dropdown-item'')
          (elements_of (render_navbar_main example_env ''/'' ?menu))
        = concat (map (\<lambda>mi. if type mi = ''submenu''
                          then map (render_navbar_subitem example_env ''/'') (get_entries mi None)
                          else []) ?menu)" .
  also have "\<dots> = [render_navbar_subitem example_env ''/'' (example_leaf ''users'' ''/users''),
      render_navbar_subitem example_env ''/''
        (example_submenu ''nested'' [example_leaf ''deep'' ''/deep''])]"
    by (simp add: example_submenu_def example_leaf_def)
  finally show ?thesis .
qed

text \<open>
  The type is not confined to two values: an entry of type \<open>endpoint\<close> is rendered,
  as a single link. And a submenu without sub-entries is rendered without a
  container.
\<close>

theorem render_navbar_main_type_counterexample:
  "type (example_leaf ''home'' ''/'') \<notin> {''leaf'', ''submenu''}
   \<and> filter (has_class ''nav-item'')
       (elements_of (render_navbar_main example_env ''/users'' [example_leaf ''home'' ''/'']))
     = [Element ''li'' [(''class'', ''nav-item'')]
          [Element ''a'' [(''class'', ''nav-link''), (''href'', ''/'')] [Text '' home'']]]
   \<and> filter (has_class ''dropdown-menu'')
       (elements_of (render_navbar_main example_env ''/users'' [example_submenu ''empty'' []]))
     = []"
  by (simp add: render_navbar_main_def render_navbar_item_def navbar_link_body_def
        example_leaf_def example_submenu_def elements_of_simps has_class_def)

lemma render_navbar_actions_menu:
  "render_navbar_actions env fallback (Some menu) context_item css_class
     = render_menu_actions env (Some menu) context_item css_class"
  "render_navbar_actions env fallback None context_item css_class
     = render_menu_actions env fallback context_item css_class"
  "render_menu_context_actions env fallback context_item (Some menu) css_class
     = render_menu_actions env (Some menu) context_item css_class"
  "render_menu_context_actions env fallback context_item None css_class
     = render_menu_actions env fallback context_item css_class"
  by (simp_all add: render_navbar_actions_def render_menu_context_actions_def)

lemma render_action_item_container:
  "type mi = ''submenu'' \<Longrightarrow>
     map children (filter (has_tag ''ul'') (render_action_item env context_item mi))
       = [map (render_action_subitem env context_item) (get_entries mi context_item)]"
  by (simp add: render_action_item_def)

text \<open>
  C2 on the action menu: a submenu entry without entries still gets its
  \<open>dropdown-menu\<close> container, an empty \<open>ul\<close>; the macro writes the container for
  every entry of type \<open>submenu\<close> (lemma \<open>render_action_item_container\<close>). The main
  menu writes the container of a submenu only for a non-empty list (lemma
  \<open>item_submenu_shape\<close>).
\<close>

theorem render_menu_actions_empty_submenu:
  "filter (has_class ''dropdown-menu'')
     (elements_of (render_menu_actions example_env
        (Some (\<lambda>item. [example_submenu ''more'' []])) None []))
   = [Element ''ul'' [(''class'', ''dropdown-menu'')] []]"
  by (simp add: render_menu_actions_def render_action_item_def action_body_def
        tooltip_attributes_def example_submenu_def elements_of_simps has_class_def)

section \<open>Properties of the \<open>webui\<close> task\<close>

lemma starts_with_iff: "starts_with xs ys \<longleftrightarrow> (\<exists>zs. ys = xs @ zs)"
  by (induction xs ys rule: starts_with.induct) auto

lemma map_of_filter_key:
  "map_of (filter (\<lambda>(k, v). P k) xs) k = (if P k then map_of xs k else None)"
  by (induction xs) auto

lemma map_of_write_file:
  "map_of (write_file d c fs) p = (if p = d then Some c else map_of fs p)"
  using map_of_filter_key [of "\<lambda>q. q \<noteq> d" fs p] by (simp add: write_file_def)

lemma map_of_remove_tree:
  "map_of (remove_tree dir fs) p = (if below dir p then None else map_of fs p)"
  using map_of_filter_key [of "\<lambda>q. \<not> below dir q" fs p] by (simp add: remove_tree_def)

lemma map_of_copy_file:
  "map_of (copy_file (s, d) fs) p =
     (if p = d \<and> map_of fs s \<noteq> None then map_of fs s else map_of fs p)"
  by (auto simp: copy_file_def map_of_write_file split: option.splits)

lemma fold_copy_file_keeps:
  "map_of fs p \<noteq> None \<Longrightarrow> map_of (fold copy_file pairs fs) p \<noteq> None"
proof (induction pairs arbitrary: fs)
  case Nil
  then show ?case by simp
next
  case (Cons sd pairs)
  obtain s d where sd: "sd = (s, d)" by (cases sd)
  from Cons.prems have "map_of (copy_file (s, d) fs) p \<noteq> None"
    by (simp add: map_of_copy_file)
  then show ?case using Cons.IH sd by simp
qed

lemma fold_copy_file_written:
  "(s, d) \<in> set pairs \<Longrightarrow> map_of fs s \<noteq> None \<Longrightarrow> map_of (fold copy_file pairs fs) d \<noteq> None"
proof (induction pairs arbitrary: fs)
  case Nil
  then show ?case by simp
next
  case (Cons sd pairs)
  obtain s' d' where sd: "sd = (s', d')" by (cases sd)
  show ?case
  proof (cases "sd = (s, d)")
    case True
    with Cons.prems have "map_of (copy_file sd fs) d \<noteq> None"
      by (simp add: map_of_copy_file)
    then show ?thesis by (simp add: fold_copy_file_keeps)
  next
    case False
    with Cons.prems have mem: "(s, d) \<in> set pairs" by simp
    from Cons.prems have "map_of (copy_file sd fs) s \<noteq> None"
      by (simp add: sd map_of_copy_file)
    with mem show ?thesis using Cons.IH by simp
  qed
qed

lemma fold_copy_file_outside:
  assumes "\<forall>sd \<in> set pairs. below V (snd sd)" and "\<not> below V p"
  shows "map_of (fold copy_file pairs fs) p = map_of fs p"
  using assms
proof (induction pairs arbitrary: fs)
  case Nil
  then show ?case by simp
next
  case (Cons sd pairs)
  obtain s d where sd: "sd = (s, d)" by (cases sd)
  with Cons.prems have "p \<noteq> d" by auto
  then have "map_of (copy_file sd fs) p = map_of fs p"
    by (simp add: sd map_of_copy_file)
  with Cons show ?case by simp
qed

lemma fold_copy_file_inside:
  assumes "\<forall>sd \<in> set pairs. below V (snd sd) \<and> \<not> below V (fst sd)"
      and "map_of (fold copy_file pairs fs) p = Some c"
  shows "map_of fs p = Some c \<or> (\<exists>sd \<in> set pairs. snd sd = p \<and> map_of fs (fst sd) = Some c)"
  using assms
proof (induction pairs arbitrary: fs)
  case Nil
  then show ?case by simp
next
  case (Cons sd pairs)
  obtain s d where sd: "sd = (s, d)" by (cases sd)
  let ?fs = "copy_file sd fs"
  from Cons.prems have rest: "\<forall>sd \<in> set pairs. below V (snd sd) \<and> \<not> below V (fst sd)"
    and d: "below V d" by (auto simp: sd)
  from Cons.prems have run: "map_of (fold copy_file pairs ?fs) p = Some c" by simp
  from Cons.IH [OF rest run]
  consider (old) "map_of ?fs p = Some c"
    | (new) sd' where "sd' \<in> set pairs" "snd sd' = p" "map_of ?fs (fst sd') = Some c"
    by blast
  then show ?case
  proof cases
    case old
    then show ?thesis
      by (auto simp: sd map_of_copy_file split: if_splits)
  next
    case new
    from rest new(1) have "\<not> below V (fst sd')" by blast
    with d have "fst sd' \<noteq> d" by blast
    with new(3) have "map_of fs (fst sd') = Some c"
      by (simp add: sd map_of_copy_file)
    with new(1,2) show ?thesis by auto
  qed
qed

lemma vendor_dir: "clean_vendor = [''mydojo/blueprints/design/static/vendor'']"
  by (simp add: clean_vendor_def project_path_def paths_project_def)

lemma expand_mapping_source:
  "(s, d) \<in> set (expand_mapping glob m fs) \<Longrightarrow>
     s \<in> fst ` set fs \<and> starts_with (cwd m) s
     \<and> d = dest m @ (if flatten m then basename (drop (length (cwd m)) s)
                      else drop (length (cwd m)) s)"
  by (force simp: expand_mapping_def)

lemma expand_mapping_vendor:
  assumes "m \<in> set copy_vendor" and "(s, d) \<in> set (expand_mapping glob m fs)"
  shows "below ''mydojo/blueprints/design/static/vendor'' d"
    and "\<not> below ''mydojo/blueprints/design/static/vendor'' s"
proof -
  from expand_mapping_source [OF assms(2)]
  obtain zs where s: "s = cwd m @ zs"
    and d: "d = dest m @ (if flatten m then basename (drop (length (cwd m)) s)
                          else drop (length (cwd m)) s)"
    by (auto simp: starts_with_iff)
  from assms(1) d show "below ''mydojo/blueprints/design/static/vendor'' d"
    by (auto simp: copy_vendor_def project_path_def paths_project_def below_def)
  from assms(1) s show "\<not> below ''mydojo/blueprints/design/static/vendor'' s"
    by (auto simp: copy_vendor_def below_def)
qed


lemma expand_mapping_remove_tree:
  "set (expand_mapping glob m (remove_tree V fs)) \<subseteq> set (expand_mapping glob m fs)"
  by (auto simp: expand_mapping_def remove_tree_def)

lemma expand_mapping_kept:
  "(s, d) \<in> set (expand_mapping glob m fs) \<Longrightarrow> \<not> below V s \<Longrightarrow>
     (s, d) \<in> set (expand_mapping glob m (remove_tree V fs))"
  by (auto simp: expand_mapping_def remove_tree_def)

lemma run_webui_steps:
  "run_webui sh glob fs = Some fs' \<longleftrightarrow>
     (\<exists>fs1 fs2. sh shell_yarn_install fs = Some fs1 \<and> sh shell_pybabel fs1 = Some fs2
        \<and> fs' = copy_task glob copy_vendor
                   (remove_tree ''mydojo/blueprints/design/static/vendor'' fs2))"
  by (auto simp: run_webui_def webui_def run_task_def vendor_dir split: option.splits)

lemma copy_vendor_after_clean:
  fixes glob fs2
  defines "V \<equiv> ''mydojo/blueprints/design/static/vendor''"
  defines "fs' \<equiv> copy_task glob copy_vendor (remove_tree V fs2)"
  shows "below V p \<Longrightarrow> map_of fs' p = Some c \<Longrightarrow>
           \<exists>m \<in> set copy_vendor. \<exists>s. (s, p) \<in> set (expand_mapping glob m fs2) \<and> map_of fs2 s = Some c"
    and "m \<in> set copy_vendor \<Longrightarrow> (s, d) \<in> set (expand_mapping glob m fs2) \<Longrightarrow>
           below V d \<and> map_of fs' d \<noteq> None"
    and "\<not> below V p \<Longrightarrow> map_of fs' p = map_of fs2 p"
proof -
  let ?fsc = "remove_tree V fs2"
  let ?pairs = "concat (map (\<lambda>m. expand_mapping glob m ?fsc) copy_vendor)"
  have fs': "fs' = fold copy_file ?pairs ?fsc"
    by (simp add: fs'_def copy_task_def)
  have pairs: "\<forall>sd \<in> set ?pairs. below V (snd sd) \<and> \<not> below V (fst sd)"
  proof
    fix sd assume "sd \<in> set ?pairs"
    then obtain m where m: "m \<in> set copy_vendor" and "sd \<in> set (expand_mapping glob m ?fsc)"
      by auto
    then have "(fst sd, snd sd) \<in> set (expand_mapping glob m ?fsc)" by simp
    from expand_mapping_vendor [OF m this]
    show "below V (snd sd) \<and> \<not> below V (fst sd)" by (simp add: V_def)
  qed
  then have dests: "\<forall>sd \<in> set ?pairs. below V (snd sd)" by blast
  {
    assume p: "below V p" and c: "map_of fs' p = Some c"
    from p have "map_of ?fsc p = None" by (simp add: map_of_remove_tree)
    with fold_copy_file_inside [OF pairs c [unfolded fs']]
    obtain sd where sd: "sd \<in> set ?pairs" "snd sd = p" "map_of ?fsc (fst sd) = Some c"
      by auto
    then obtain m where m: "m \<in> set copy_vendor" and e: "sd \<in> set (expand_mapping glob m ?fsc)"
      by auto
    from e sd(2) have "(fst sd, p) \<in> set (expand_mapping glob m ?fsc)" by auto
    with expand_mapping_remove_tree have in2: "(fst sd, p) \<in> set (expand_mapping glob m fs2)"
      by blast
    from sd(3) have "map_of fs2 (fst sd) = Some c"
      by (simp add: map_of_remove_tree split: if_splits)
    with m in2
    show "\<exists>m \<in> set copy_vendor. \<exists>s. (s, p) \<in> set (expand_mapping glob m fs2) \<and> map_of fs2 s = Some c"
      by blast
  }
  {
    assume m: "m \<in> set copy_vendor" and e: "(s, d) \<in> set (expand_mapping glob m fs2)"
    from expand_mapping_vendor [OF m e]
    have d: "below V d" and s: "\<not> below V s" by (simp_all add: V_def)
    from expand_mapping_source [OF e] have "s \<in> fst ` set fs2" by simp
    then have "map_of fs2 s \<noteq> None" by (simp add: map_of_eq_None_iff)
    with s have src: "map_of ?fsc s \<noteq> None" by (simp add: map_of_remove_tree)
    from expand_mapping_kept [OF e s] m have "(s, d) \<in> set ?pairs" by auto
    from fold_copy_file_written [OF this src] d
    show "below V d \<and> map_of fs' d \<noteq> None" by (simp add: fs')
  }
  {
    assume p: "\<not> below V p"
    from fold_copy_file_outside [OF dests p]
    show "map_of fs' p = map_of fs2 p"
      using p by (simp add: fs' map_of_remove_tree)
  }
qed

text \<open>
  C5. In the task list of \<open>webui\<close>, \<open>clean:vendor\<close> comes before \<open>copy:vendor\<close>,
  and \<open>copy:vendor\<close> copies from the seven library directories below
  \<open>node_modules\<close> (Bootstrap CSS and JS, FontAwesome CSS, JS and webfonts, jQuery,
  Popper.js) into the directories below the design blueprint's \<open>static/vendor\<close>.
  When the task completes, the two shell commands have succeeded, and with \<open>fs2\<close>
  the tree they left: every file below the vendor directory is the copy of a file
  that one of the seven mappings selects in \<open>fs2\<close>, at that file's destination and
  with its content; every file a mapping selects has its destination below the
  vendor directory, and that destination exists; and every file outside the vendor
  directory is as in \<open>fs2\<close>.
\<close>

theorem run_webui_vendor:
  assumes run: "run_webui sh glob fs = Some fs'"
  shows "(\<exists>before after. webui = before @ ''clean:vendor'' # after
            \<and> ''copy:vendor'' \<notin> set before \<and> ''copy:vendor'' \<in> set after)
       \<and> map (\<lambda>m. (cwd m, dest m)) copy_vendor =
           [(''node_modules/bootstrap/dist/css/'',
             ''mydojo/blueprints/design/static/vendor/bootstrap/css/''),
            (''node_modules/bootstrap/dist/js/'',
             ''mydojo/blueprints/design/static/vendor/bootstrap/js/''),
            (''node_modules/@fortawesome/fontawesome-pro/css/'',
             ''mydojo/blueprints/design/static/vendor/font-awesome/css/''),
            (''node_modules/@fortawesome/fontawesome-pro/js/'',
             ''mydojo/blueprints/design/static/vendor/font-awesome/js/''),
            (''node_modules/@fortawesome/fontawesome-pro/webfonts/'',
             ''mydojo/blueprints/design/static/vendor/font-awesome/webfonts/''),
            (''node_modules/jquery/dist/'',
             ''mydojo/blueprints/design/static/vendor/jquery/js/''),
            (''node_modules/popper.js/dist/'',
             ''mydojo/blueprints/design/static/vendor/popper/js/'')]
       \<and> (\<exists>fs1 fs2.
             sh shell_yarn_install fs = Some fs1 \<and> sh shell_pybabel fs1 = Some fs2
             \<and> (\<forall>p c. below ''mydojo/blueprints/design/static/vendor'' p \<and> map_of fs' p = Some c
                    \<longrightarrow> (\<exists>m \<in> set copy_vendor. \<exists>s.
                           (s, p) \<in> set (expand_mapping glob m fs2) \<and> map_of fs2 s = Some c))
             \<and> (\<forall>m \<in> set copy_vendor. \<forall>s d. (s, d) \<in> set (expand_mapping glob m fs2)
                    \<longrightarrow> below ''mydojo/blueprints/design/static/vendor'' d
                        \<and> map_of fs' d \<noteq> None)
             \<and> (\<forall>p. \<not> below ''mydojo/blueprints/design/static/vendor'' p
                    \<longrightarrow> map_of fs' p = map_of fs2 p))"
proof -
  have order: "\<exists>before after. webui = before @ ''clean:vendor'' # after
            \<and> ''copy:vendor'' \<notin> set before \<and> ''copy:vendor'' \<in> set after"
  proof (intro exI conjI)
    show "webui = [''shell:yarn_install'', ''shell:pybabel''] @ ''clean:vendor'' # [''copy:vendor'']"
      by (simp add: webui_def)
  qed simp_all
  have table: "map (\<lambda>m. (cwd m, dest m)) copy_vendor =
           [(''node_modules/bootstrap/dist/css/'',
             ''mydojo/blueprints/design/static/vendor/bootstrap/css/''),
            (''node_modules/bootstrap/dist/js/'',
             ''mydojo/blueprints/design/static/vendor/bootstrap/js/''),
            (''node_modules/@fortawesome/fontawesome-pro/css/'',
             ''mydojo/blueprints/design/static/vendor/font-awesome/css/''),
            (''node_modules/@fortawesome/fontawesome-pro/js/'',
             ''mydojo/blueprints/design/static/vendor/font-awesome/js/''),
            (''node_modules/@fortawesome/fontawesome-pro/webfonts/'',
             ''mydojo/blueprints/design/static/vendor/font-awesome/webfonts/''),
            (''node_modules/jquery/dist/'',
             ''mydojo/blueprints/design/static/vendor/jquery/js/''),
            (''node_modules/popper.js/dist/'',
             ''mydojo/blueprints/design/static/vendor/popper/js/'')]"
    by (simp add: copy_vendor_def project_path_def paths_project_def)
  from run obtain fs1 fs2 where
    steps: "sh shell_yarn_install fs = Some fs1" "sh shell_pybabel fs1 = Some fs2"
    and fs': "fs' = copy_task glob copy_vendor
                      (remove_tree ''mydojo/blueprints/design/static/vendor'' fs2)"
    by (auto simp: run_webui_steps)
  have tree: "(\<forall>p c. below ''mydojo/blueprints/design/static/vendor'' p \<and> map_of fs' p = Some c
                    \<longrightarrow> (\<exists>m \<in> set copy_vendor. \<exists>s.
                           (s, p) \<in> set (expand_mapping glob m fs2) \<and> map_of fs2 s = Some c))
             \<and> (\<forall>m \<in> set copy_vendor. \<forall>s d. (s, d) \<in> set (expand_mapping glob m fs2)
                    \<longrightarrow> below ''mydojo/blueprints/design/static/vendor'' d
                        \<and> map_of fs' d \<noteq> None)
             \<and> (\<forall>p. \<not> below ''mydojo/blueprints/design/static/vendor'' p
                    \<longrightarrow> map_of fs' p = map_of fs2 p)"
    unfolding fs'
    using copy_vendor_after_clean [where glob = glob and ?fs2.0 = fs2] by blast
  from order table steps tree show ?thesis by blast
qed

theorem run_webui_vendor_witness:
  "run_webui (\<lambda>cmd fs. Some fs) example_glob example_tree =
     Some [(''mydojo/blueprints/design/static/vendor/jquery/js/jquery.js'', ''jquery 3''),
           (''node_modules/jquery/dist/jquery.js'', ''jquery 3''),
           (''mydojo/blueprints/design/static/css/site.css'', ''body {}'')]
   \<and> map_of [(''mydojo/blueprints/design/static/vendor/jquery/js/jquery.js'', ''jquery 3''),
              (''node_modules/jquery/dist/jquery.js'', ''jquery 3''),
              (''mydojo/blueprints/design/static/css/site.css'', ''body {}'')]
        ''mydojo/blueprints/design/static/vendor/jquery/js/jquery.js'' \<noteq> None"
proof -
  let ?sh = "(\<lambda>cmd fs. Some fs) :: string \<Rightarrow> tree \<Rightarrow> tree option"
  let ?out = "[(''mydojo/blueprints/design/static/vendor/jquery/js/jquery.js'', ''jquery 3''),
               (''node_modules/jquery/dist/jquery.js'', ''jquery 3''),
               (''mydojo/blueprints/design/static/css/site.css'', ''body {}'')]"
  let ?jquery = "\<lparr>expand = True, flatten = True, cwd = ''node_modules/jquery/dist/'',
                  src = ''./**'', dest = project_path ''web_design_static'' @ ''vendor/jquery/js/''\<rparr>"
  have clean: "remove_tree ''mydojo/blueprints/design/static/vendor'' example_tree =
                 [(''node_modules/jquery/dist/jquery.js'', ''jquery 3''),
                  (''mydojo/blueprints/design/static/css/site.css'', ''body {}'')]"
    by (simp add: remove_tree_def below_def example_tree_def)
  have copy: "copy_task example_glob copy_vendor
                [(''node_modules/jquery/dist/jquery.js'', ''jquery 3''),
                 (''mydojo/blueprints/design/static/css/site.css'', ''body {}'')] = ?out"
    by (simp add: copy_task_def copy_vendor_def expand_mapping_def example_glob_def
          basename_def copy_file_def write_file_def project_path_def paths_project_def)
  have run: "run_webui ?sh example_glob example_tree = Some ?out"
    by (simp add: run_webui_steps clean copy)
  have mapping: "?jquery \<in> set copy_vendor"
    by (simp add: copy_vendor_def)
  have selected: "(''node_modules/jquery/dist/jquery.js'',
                   ''mydojo/blueprints/design/static/vendor/jquery/js/jquery.js'')
                  \<in> set (expand_mapping example_glob ?jquery example_tree)"
    by (simp add: expand_mapping_def example_glob_def example_tree_def basename_def
          project_path_def paths_project_def)
  from run_webui_vendor [OF run] obtain fs1 fs2 where
    steps: "?sh shell_yarn_install example_tree = Some fs1" "?sh shell_pybabel fs1 = Some fs2"
    and copied: "\<forall>m \<in> set copy_vendor. \<forall>s d. (s, d) \<in> set (expand_mapping example_glob m fs2)
                    \<longrightarrow> below ''mydojo/blueprints/design/static/vendor'' d
                        \<and> map_of ?out d \<noteq> None"
    by blast
  from steps have "fs2 = example_tree" by simp
  with copied mapping selected
  have "map_of ?out ''mydojo/blueprints/design/static/vendor/jquery/js/jquery.js'' \<noteq> None"
    by blast
  with run show ?thesis by (rule conjI)
qed

end
